theory Spec2Isabelle
  imports Main "HOL-Library.Word"
begin

unbundle bit_operations_syntax

section \<open>JavaScript values, as far as the webhook handler touches them\<close>

text \<open>
  The handler of \<^verbatim>\<open>POST /webhook/:projectName\<close> is TypeScript, but its types are erased
  when it runs: \<^verbatim>\<open>req.body\<close> is whatever \<^verbatim>\<open>JSON.parse\<close> made of the request body and
  \<^verbatim>\<open>projectConfigs\<close> the object it made of \<^verbatim>\<open>config.json\<close>. The model therefore works on
  JavaScript values, not on the declared interfaces.

  A JavaScript string is a sequence of UTF-16 code units: \<^verbatim>\<open>length\<close> and \<^verbatim>\<open>slice\<close>
  count code units. The literals of the program are ASCII (apart from the emoji of the
  message header) and are written with \<open>js\<close>.
  HTTP header values reach the handler as Latin-1 strings, one character per byte, and
  are modelled as \<open>string\<close>; a \<^verbatim>\<open>Buffer\<close> is a list of bytes.
\<close>

type_synonym byte = "8 word"
type_synonym jsstring = "16 word list"

definition js :: "string \<Rightarrow> jsstring" where
  "js s = map (\<lambda>c. of_char c) s"

datatype js_error = TypeError | RangeError

datatype jsval =
    JUndefined
  | JNull
  | JBool bool
  | JNum int
  | JStr jsstring
  | JArr "jsval list"
  | JObj "(jsstring \<times> jsval) list"

text \<open>
  \<open>JObj ps\<close> is an object made by \<^verbatim>\<open>JSON.parse\<close>: \<open>ps\<close> lists its own properties (an
  earlier pair wins in \<open>map_of\<close>; a parsed object has each key once). \<open>JNum\<close> carries
  the integers of absolute value at most \<open>2^53\<close>, the whole numbers a double holds
  exactly and \<^verbatim>\<open>ToString\<close> prints digit for digit; larger and fractional numbers are
  outside the model. The handler computes no other numbers than lengths.
\<close>

text \<open>\<^verbatim>\<open>!v\<close> is \<open>\<not> truthy v\<close>.\<close>

fun truthy :: "jsval \<Rightarrow> bool" where
  "truthy JUndefined = False"
| "truthy JNull = False"
| "truthy (JBool b) = b"
| "truthy (JNum n) = (n \<noteq> 0)"
| "truthy (JStr s) = (s \<noteq> [])"
| "truthy (JArr xs) = True"
| "truthy (JObj ps) = True"

fun nullish :: "jsval \<Rightarrow> bool" where
  "nullish JUndefined = True"
| "nullish JNull = True"
| "nullish v = False"

text \<open>
  \<open>read_prop v k\<close> is \<^verbatim>\<open>v.k\<close> for a \<open>v\<close> that is neither \<^verbatim>\<open>undefined\<close> nor \<^verbatim>\<open>null\<close>, and for
  the property names the handler reads: \<^verbatim>\<open>pusher repository commits added modified
  removed message id url author name html_url length botToken chatId threadId
  webhookSecret\<close>. Of these only \<^verbatim>\<open>length\<close> is defined on a built-in prototype (of
  strings and arrays); every other one is an own property of a parsed object or missing.
  \<open>get\<close> is the plain access \<^verbatim>\<open>v.k\<close>, which throws on \<^verbatim>\<open>undefined\<close> and \<^verbatim>\<open>null\<close>;
  \<open>opt_get\<close> is \<^verbatim>\<open>v?.k\<close>.
\<close>

fun read_prop :: "jsval \<Rightarrow> string \<Rightarrow> jsval" where
  "read_prop (JStr s) k = (if k = ''length'' then JNum (int (length s)) else JUndefined)"
| "read_prop (JArr xs) k = (if k = ''length'' then JNum (int (length xs)) else JUndefined)"
| "read_prop (JObj ps) k = (case map_of ps (js k) of Some v \<Rightarrow> v | None \<Rightarrow> JUndefined)"
| "read_prop v k = JUndefined"

definition get :: "jsval \<Rightarrow> string \<Rightarrow> js_error + jsval" where
  "get v k = (if nullish v then Inl TypeError else Inr (read_prop v k))"

definition opt_get :: "jsval \<Rightarrow> string \<Rightarrow> jsval" where
  "opt_get v k = (if nullish v then JUndefined else read_prop v k)"

text \<open>A thrown exception ends the evaluation: \<open>bindE\<close> sequences two steps.\<close>

definition bindE :: "'e + 'a \<Rightarrow> ('a \<Rightarrow> 'e + 'b) \<Rightarrow> 'e + 'b" where
  "bindE m f = (case m of Inl e \<Rightarrow> Inl e | Inr x \<Rightarrow> f x)"

fun mapE :: "('a \<Rightarrow> 'e + 'b) \<Rightarrow> 'a list \<Rightarrow> 'e + 'b list" where
  "mapE f [] = Inr []"
| "mapE f (x # xs) = bindE (f x) (\<lambda>y. bindE (mapE f xs) (\<lambda>ys. Inr (y # ys)))"

text \<open>\<^verbatim>\<open>Array.prototype.join\<close> on an array of strings.\<close>

fun join :: "jsstring \<Rightarrow> jsstring list \<Rightarrow> jsstring" where
  "join sep [] = []"
| "join sep [x] = x"
| "join sep (x # y # ys) = x @ sep @ join sep (y # ys)"

text \<open>Decimal digits of a natural number, most significant first.\<close>

definition digit_char :: "nat \<Rightarrow> char" where
  "digit_char d = char_of (48 + d)"

fun digits :: "nat \<Rightarrow> string" where
  "digits n = (if n < 10 then [digit_char n] else digits (n div 10) @ [digit_char (n mod 10)])"

declare digits.simps [simp del]

text \<open>
  \<^verbatim>\<open>ToString\<close>, applied by a template literal to each \<^verbatim>\<open>${...}\<close>. An array prints its
  elements joined by commas, \<^verbatim>\<open>null\<close> and \<^verbatim>\<open>undefined\<close> elements as the empty string. A
  parsed object prints as \<^verbatim>\<open>[object Object]\<close> through \<^verbatim>\<open>Object.prototype.toString\<close>;
  when it has an own property \<^verbatim>\<open>toString\<close> (a parsed value, never callable) the
  conversion falls back to \<^verbatim>\<open>valueOf\<close>, finds no primitive and throws a TypeError.
\<close>

fun to_string :: "jsval \<Rightarrow> js_error + jsstring"
  and join_comma :: "jsval list \<Rightarrow> js_error + jsstring" where
  "to_string JUndefined = Inr (js ''undefined'')"
| "to_string JNull = Inr (js ''null'')"
| "to_string (JBool b) = Inr (js (if b then ''true'' else ''false''))"
| "to_string (JNum n) = Inr (js (if n < 0 then ''-'' @ digits (nat (- n)) else digits (nat n)))"
| "to_string (JStr s) = Inr s"
| "to_string (JArr xs) = join_comma xs"
| "to_string (JObj ps) =
     (if map_of ps (js ''toString'') \<noteq> None then Inl TypeError else Inr (js ''[object Object]''))"
| "join_comma [] = Inr []"
| "join_comma (x # xs) =
     bindE (if nullish x then Inr [] else to_string x) (\<lambda>s.
     bindE (join_comma xs) (\<lambda>r.
     Inr (if xs = [] then s else s @ js '','' @ r)))"

section \<open>Buffers and hexadecimal\<close>

text \<open>
  \<^verbatim>\<open>hmac.digest('hex')\<close> prints each byte as two lower-case hexadecimal digits.
  \<^verbatim>\<open>Buffer.from(s, 'hex')\<close> reads \<open>s\<close> two characters at a time, accepts digits and the
  letters a-f in either case, stops at the first pair that is not hexadecimal and
  ignores a last character without a partner.
\<close>

definition hex_digit :: "nat \<Rightarrow> char" where
  "hex_digit n = ''0123456789abcdef'' ! n"

definition to_hex :: "byte list \<Rightarrow> string" where
  "to_hex bs = concat (map (\<lambda>b. [hex_digit (unat b div 16), hex_digit (unat b mod 16)]) bs)"

definition unhex :: "char \<Rightarrow> nat option" where
  "unhex c =
     (let n = of_char c :: nat in
      if 48 \<le> n \<and> n \<le> 57 then Some (n - 48)
      else if 97 \<le> n \<and> n \<le> 102 then Some (n - 87)
      else if 65 \<le> n \<and> n \<le> 70 then Some (n - 55)
      else None)"

fun from_hex :: "string \<Rightarrow> byte list" where
  "from_hex (a # b # r) =
     (case unhex a of
        None \<Rightarrow> []
      | Some x \<Rightarrow> (case unhex b of None \<Rightarrow> [] | Some y \<Rightarrow> of_nat (16 * x + y) # from_hex r))"
| "from_hex r = []"

text \<open>\<^verbatim>\<open>crypto.timingSafeEqual\<close> throws a RangeError on buffers of different lengths.\<close>

definition timingSafeEqual :: "byte list \<Rightarrow> byte list \<Rightarrow> js_error + bool" where
  "timingSafeEqual a b = (if length a \<noteq> length b then Inl RangeError else Inr (a = b))"

text \<open>
  A string given to \<^verbatim>\<open>crypto.createHmac\<close> as the key is encoded in UTF-8: a surrogate
  pair is one code point of four bytes, a surrogate on its own becomes U+FFFD.
\<close>

definition is_high :: "16 word \<Rightarrow> bool" where
  "is_high u = (55296 \<le> uint u \<and> uint u < 56320)"

definition is_low :: "16 word \<Rightarrow> bool" where
  "is_low u = (56320 \<le> uint u \<and> uint u < 57344)"

definition utf8_cp :: "int \<Rightarrow> byte list" where
  "utf8_cp n =
     (if n < 128 then [of_int n]
      else if n < 2048 then [of_int (192 + n div 64), of_int (128 + n mod 64)]
      else if n < 65536 then
        [of_int (224 + n div 4096), of_int (128 + n div 64 mod 64), of_int (128 + n mod 64)]
      else [of_int (240 + n div 262144), of_int (128 + n div 4096 mod 64),
            of_int (128 + n div 64 mod 64), of_int (128 + n mod 64)])"

fun utf8 :: "jsstring \<Rightarrow> byte list" where
  "utf8 [] = []"
| "utf8 [u] = (if is_high u \<or> is_low u then utf8_cp 65533 else utf8_cp (uint u))"
| "utf8 (u # v # r) =
     (if is_high u \<and> is_low v
      then utf8_cp (65536 + (uint u - 55296) * 1024 + (uint v - 56320)) @ utf8 r
      else if is_high u \<or> is_low u then utf8_cp 65533 @ utf8 (v # r)
      else utf8_cp (uint u) @ utf8 (v # r))"

section \<open>HMAC-SHA256\<close>

text \<open>
  \<^verbatim>\<open>crypto.createHmac('sha256', secret)\<close>, \<^verbatim>\<open>update\<close> and \<^verbatim>\<open>digest\<close> are Node's binding
  of HMAC (RFC 2104) over SHA-256 (FIPS 180-4). The library is not part of the
  repository; it is written out here so that the digest the handler compares with is the
  real one. Words are 32 bits wide and additions wrap.
\<close>

type_synonym w32 = "32 word"

definition Ch :: "w32 \<Rightarrow> w32 \<Rightarrow> w32 \<Rightarrow> w32" where
  "Ch x y z = (x AND y) XOR (NOT x AND z)"

definition Maj :: "w32 \<Rightarrow> w32 \<Rightarrow> w32 \<Rightarrow> w32" where
  "Maj x y z = (x AND y) XOR (x AND z) XOR (y AND z)"

definition bsig0 :: "w32 \<Rightarrow> w32" where
  "bsig0 x = word_rotr 2 x XOR word_rotr 13 x XOR word_rotr 22 x"

definition bsig1 :: "w32 \<Rightarrow> w32" where
  "bsig1 x = word_rotr 6 x XOR word_rotr 11 x XOR word_rotr 25 x"

definition ssig0 :: "w32 \<Rightarrow> w32" where
  "ssig0 x = word_rotr 7 x XOR word_rotr 18 x XOR drop_bit 3 x"

definition ssig1 :: "w32 \<Rightarrow> w32" where
  "ssig1 x = word_rotr 17 x XOR word_rotr 19 x XOR drop_bit 10 x"

text \<open>The round constants and the initial hash value, in decimal.\<close>

definition sha256_K :: "w32 list" where
  "sha256_K =
    [1116352408, 1899447441, 3049323471, 3921009573, 961987163, 1508970993, 2453635748,
     2870763221, 3624381080, 310598401, 607225278, 1426881987, 1925078388, 2162078206,
     2614888103, 3248222580, 3835390401, 4022224774, 264347078, 604807628, 770255983,
     1249150122, 1555081692, 1996064986, 2554220882, 2821834349, 2952996808, 3210313671,
     3336571891, 3584528711, 113926993, 338241895, 666307205, 773529912, 1294757372,
     1396182291, 1695183700, 1986661051, 2177026350, 2456956037, 2730485921, 2820302411,
     3259730800, 3345764771, 3516065817, 3600352804, 4094571909, 275423344, 430227734,
     506948616, 659060556, 883997877, 958139571, 1322822218, 1537002063, 1747873779,
     1955562222, 2024104815, 2227730452, 2361852424, 2428436474, 2756734187, 3204031479,
     3329325298]"

type_synonym sha_state = "w32 \<times> w32 \<times> w32 \<times> w32 \<times> w32 \<times> w32 \<times> w32 \<times> w32"

definition sha256_H0 :: sha_state where
  "sha256_H0 =
     (1779033703, 3144134277, 1013904242, 2773480762,
      1359893119, 2600822924, 528734635, 1541459225)"

definition be64 :: "64 word \<Rightarrow> byte list" where
  "be64 w = map (\<lambda>i. ucast (drop_bit (8 * (7 - i)) w)) [0..<8]"

definition sha256_pad :: "byte list \<Rightarrow> byte list" where
  "sha256_pad m =
     m @ [128] @ replicate ((119 - length m mod 64) mod 64) 0 @ be64 (of_nat (8 * length m))"

fun blocks64 :: "byte list \<Rightarrow> byte list list" where
  "blocks64 bs = (if bs = [] then [] else take 64 bs # blocks64 (drop 64 bs))"

declare blocks64.simps [simp del]

fun words_be :: "byte list \<Rightarrow> w32 list" where
  "words_be (a # b # c # d # r) =
     (push_bit 24 (ucast a) OR push_bit 16 (ucast b) OR push_bit 8 (ucast c) OR ucast d)
       # words_be r"
| "words_be r = []"

definition schedule :: "w32 list \<Rightarrow> w32 list" where
  "schedule ws =
     fold (\<lambda>t w. w @ [ssig1 (w ! (t - 2)) + w ! (t - 7) + ssig0 (w ! (t - 15)) + w ! (t - 16)])
       [16..<64] ws"

fun sha_round :: "w32 \<times> w32 \<Rightarrow> sha_state \<Rightarrow> sha_state" where
  "sha_round (k, w) (a, b, c, d, e, f, g, h) =
     (let t1 = h + bsig1 e + Ch e f g + k + w;
          t2 = bsig0 a + Maj a b c
      in (t1 + t2, a, b, c, d + t1, e, f, g))"

fun add_state :: "sha_state \<Rightarrow> sha_state \<Rightarrow> sha_state" where
  "add_state (a, b, c, d, e, f, g, h) (a', b', c', d', e', f', g', h') =
     (a + a', b + b', c + c', d + d', e + e', f + f', g + g', h + h')"

definition compress :: "byte list \<Rightarrow> sha_state \<Rightarrow> sha_state" where
  "compress blk s = add_state s (fold sha_round (zip sha256_K (schedule (words_be blk))) s)"

definition bytes_be :: "w32 \<Rightarrow> byte list" where
  "bytes_be w = [ucast (drop_bit 24 w), ucast (drop_bit 16 w), ucast (drop_bit 8 w), ucast w]"

fun state_bytes :: "sha_state \<Rightarrow> byte list" where
  "state_bytes (a, b, c, d, e, f, g, h) =
     bytes_be a @ bytes_be b @ bytes_be c @ bytes_be d @
     bytes_be e @ bytes_be f @ bytes_be g @ bytes_be h"

definition sha256 :: "byte list \<Rightarrow> byte list" where
  "sha256 m = state_bytes (fold compress (blocks64 (sha256_pad m)) sha256_H0)"

definition hmac_sha256 :: "byte list \<Rightarrow> byte list \<Rightarrow> byte list" where
  "hmac_sha256 key msg =
     (let k = (if length key > 64 then sha256 key else key);
          k0 = k @ replicate (64 - length k) 0
      in sha256 (map (\<lambda>b. b XOR 92) k0 @ sha256 (map (\<lambda>b. b XOR 54) k0 @ msg)))"

section \<open>The configuration store\<close>

text \<open>
  \<^verbatim>\<open>projectConfigs\<close> is the object parsed from \<^verbatim>\<open>config.json\<close>, or \<^verbatim>\<open>{}\<close> when the file is
  missing or cannot be parsed; it is given by the list of its own properties.
  \<^verbatim>\<open>projectConfigs[projectName]\<close> is an ordinary property read: a name that is not an own
  property is looked up in \<^verbatim>\<open>Object.prototype\<close>, whose members (eleven functions and the
  accessor \<^verbatim>\<open>__proto__\<close>) are all truthy and have none of the properties
  \<^verbatim>\<open>botToken\<close>, \<^verbatim>\<open>chatId\<close>, \<^verbatim>\<open>threadId\<close>, \<^verbatim>\<open>webhookSecret\<close>.
\<close>

definition object_prototype_names :: "string list" where
  "object_prototype_names =
     [''constructor'', ''__defineGetter__'', ''__defineSetter__'', ''hasOwnProperty'',
      ''__lookupGetter__'', ''__lookupSetter__'', ''isPrototypeOf'', ''propertyIsEnumerable'',
      ''toString'', ''valueOf'', ''__proto__'', ''toLocaleString'']"

datatype config_ref = NoConfig | OwnConfig jsval | Inherited

definition lookup_config :: "(jsstring \<times> jsval) list \<Rightarrow> jsstring \<Rightarrow> config_ref" where
  "lookup_config configs name =
     (case map_of configs name of
        Some v \<Rightarrow> OwnConfig v
      | None \<Rightarrow> if name \<in> set (map js object_prototype_names) then Inherited else NoConfig)"

fun config_truthy :: "config_ref \<Rightarrow> bool" where
  "config_truthy NoConfig = False"
| "config_truthy (OwnConfig v) = truthy v"
| "config_truthy Inherited = True"

text \<open>\<^verbatim>\<open>config.k\<close> for a truthy \<open>config\<close>.\<close>

fun config_field :: "config_ref \<Rightarrow> string \<Rightarrow> jsval" where
  "config_field (OwnConfig v) k = read_prop v k"
| "config_field c k = JUndefined"

section \<open>Requests, responses and calls to the outside\<close>

record request =
  projectName :: jsstring
  x_github_event :: "string option"
  x_hub_signature_256 :: "string option"
  rawBody :: "byte list option"
  body :: jsval

text \<open>
  \<open>rawBody\<close> is set by \<^verbatim>\<open>rawBodySaver\<close> when the body parser read a non-empty body;
  \<open>body\<close> is \<^verbatim>\<open>req.body\<close>, the parsed body, \<^verbatim>\<open>{}\<close> when there was none.
\<close>

text \<open>
  The data of the call \<^verbatim>\<open>axios.post(url, {chat_id, message_thread_id, text, parse_mode,
  disable_web_page_preview})\<close>; \<open>message_text\<close> is the field \<^verbatim>\<open>text\<close>.
\<close>

record telegram_request =
  url :: jsstring
  chat_id :: jsval
  message_thread_id :: jsval
  message_text :: jsstring
  parse_mode :: jsstring
  disable_web_page_preview :: bool

datatype post_result = Resolved | Rejected string

record env =
  projectConfigs :: "(jsstring \<times> jsval) list"
  TELEGRAM_API_DOMAIN :: jsstring
  axios_post :: "telegram_request \<Rightarrow> post_result"

datatype failure = Thrown js_error | PostFailed string

datatype res_body = Send string | Json_error string | Json_error_details string failure

text \<open>
  The handler either answers with a status and a body, or throws: the promise of the
  \<^verbatim>\<open>async\<close> handler rejects and no response is written.
\<close>

datatype outcome = Responded nat res_body | Unhandled js_error

datatype call = TimingSafeEqual "byte list" "byte list" | AxiosPost telegram_request

text \<open>
  The two source files hold the same handler in two versions. They differ in the ping
  and signature checks, which only \<^verbatim>\<open>src/unnamed/part_000\<close> has, and in three literals of
  the message: the emoji of the header (in \<^verbatim>\<open>part_000\<close> the file holds the four characters
  U+00F0 U+0178 U+0161 U+20AC where \<^verbatim>\<open>main.ts\<close> has U+1F680), the line break after the
  header and the parse mode.
\<close>

record variant =
  emoji :: jsstring
  separator :: jsstring
  mode :: jsstring

definition main_ts :: variant where
  "main_ts = \<lparr>emoji = [55357, 56960], separator = [10], mode = js ''Markdown''\<rparr>"

definition part_000 :: variant where
  "part_000 = \<lparr>emoji = [240, 376, 353, 8364], separator = [10, 10], mode = js ''MarkdownV2''\<rparr>"

section \<open>Message formatting\<close>

text \<open>\<^verbatim>\<open>l?.length || 0\<close>\<close>

definition length_or_0 :: "jsval \<Rightarrow> jsval" where
  "length_or_0 l = (let n = opt_get l ''length'' in if truthy n then n else JNum 0)"

text \<open>
  \<^verbatim>\<open>i.slice(0, 7)\<close>: strings and arrays have the method; on every other value the call
  throws a TypeError.
\<close>

fun slice_0_7 :: "jsval \<Rightarrow> js_error + jsval" where
  "slice_0_7 (JStr s) = Inr (JStr (take 7 s))"
| "slice_0_7 (JArr xs) = Inr (JArr (take 7 xs))"
| "slice_0_7 v = Inl TypeError"

text \<open>The callback of \<^verbatim>\<open>commits.map\<close> (\<^verbatim>\<open>main.ts\<close> lines 85-90, \<^verbatim>\<open>part_000\<close> lines 124-129).\<close>

definition format_commit :: "jsval \<Rightarrow> js_error + jsstring" where
  "format_commit c =
     bindE (get c ''added'') (\<lambda>a. let added = length_or_0 a in
     bindE (get c ''modified'') (\<lambda>m. let modified = length_or_0 m in
     bindE (get c ''removed'') (\<lambda>r. let removed = length_or_0 r in
     bindE (get c ''message'') (\<lambda>message. bindE (to_string message) (\<lambda>s1.
     bindE (get c ''id'') (\<lambda>i. bindE (slice_0_7 i) (\<lambda>short. bindE (to_string short) (\<lambda>s2.
     bindE (get c ''url'') (\<lambda>u. bindE (to_string u) (\<lambda>s3.
     bindE (get c ''author'') (\<lambda>au. let n = opt_get au ''name'' in
     bindE (to_string (if nullish n then JStr (js ''unknown'') else n)) (\<lambda>s4.
     bindE (to_string added) (\<lambda>s5.
     bindE (to_string modified) (\<lambda>s6.
     bindE (to_string removed) (\<lambda>s7.
     Inr (js ''- '' @ s1 @ js '' (['' @ s2 @ js ''](''  @ s3 @ js '')) by '' @ s4 @
          js '' (added: '' @ s5 @ js '', modified: '' @ s6 @ js '', removed: '' @ s7 @
          js '')''))))))))))))))))"

text \<open>
  \<^verbatim>\<open>commits.map(...).join('\n')\<close>: only an array has \<^verbatim>\<open>map\<close>. Then the message
  (\<^verbatim>\<open>main.ts\<close> lines 92-93, \<^verbatim>\<open>part_000\<close> lines 131-132).
\<close>

definition commit_messages :: "jsval \<Rightarrow> js_error + jsstring" where
  "commit_messages commits =
     (case commits of
        JArr cs \<Rightarrow> bindE (mapE format_commit cs) (\<lambda>ls. Inr (join [10] ls))
      | _ \<Rightarrow> Inl TypeError)"

definition push_message :: "variant \<Rightarrow> jsval \<Rightarrow> jsval \<Rightarrow> jsstring \<Rightarrow> js_error + jsstring" where
  "push_message v pusher repository commitMessages =
     bindE (get pusher ''name'') (\<lambda>pn. bindE (to_string pn) (\<lambda>s1.
     bindE (get repository ''name'') (\<lambda>rn. bindE (to_string rn) (\<lambda>s2.
     bindE (get repository ''html_url'') (\<lambda>ru. bindE (to_string ru) (\<lambda>s3.
     Inr (emoji v @ js '' *'' @ s1 @ js ''* pushed to ['' @ s2 @ js ''](''  @ s3 @ js ''):'' @
          separator v @ commitMessages)))))))"

section \<open>The handler\<close>

text \<open>
  The \<^verbatim>\<open>try\<close> block (\<^verbatim>\<open>main.ts\<close> lines 95-106, \<^verbatim>\<open>part_000\<close> lines 134-145): the URL is
  built inside it, so an exception of the template literal is caught like a failure of
  \<^verbatim>\<open>axios.post\<close>.
\<close>

definition send_telegram :: "variant \<Rightarrow> env \<Rightarrow> config_ref \<Rightarrow> jsstring \<Rightarrow> outcome \<times> call list" where
  "send_telegram v e config message =
     (case to_string (config_field config ''botToken'') of
        Inl err \<Rightarrow>
          (Responded 500 (Json_error_details ''Failed to send Telegram message'' (Thrown err)), [])
      | Inr token \<Rightarrow>
          (let r = \<lparr>url = TELEGRAM_API_DOMAIN e @ js ''/bot'' @ token @ js ''/sendMessage'',
                    chat_id = config_field config ''chatId'',
                    message_thread_id = config_field config ''threadId'',
                    message_text = message,
                    parse_mode = mode v,
                    disable_web_page_preview = True\<rparr>
           in case axios_post e r of
                Resolved \<Rightarrow> (Responded 200 (Send ''OK''), [AxiosPost r])
              | Rejected d \<Rightarrow>
                  (Responded 500
                     (Json_error_details ''Failed to send Telegram message'' (PostFailed d)),
                   [AxiosPost r])))"

text \<open>
  Payload validation, formatting and delivery, the part both versions share
  (\<^verbatim>\<open>main.ts\<close> lines 79-106, \<^verbatim>\<open>part_000\<close> lines 118-145).
\<close>

definition handle_push :: "variant \<Rightarrow> env \<Rightarrow> config_ref \<Rightarrow> jsval \<Rightarrow> outcome \<times> call list" where
  "handle_push v e config b =
     (case bindE (get b ''pusher'') (\<lambda>pusher.
           bindE (get b ''repository'') (\<lambda>repository.
           bindE (get b ''commits'') (\<lambda>commits. Inr (pusher, repository, commits)))) of
        Inl err \<Rightarrow> (Unhandled err, [])
      | Inr (pusher, repository, commits) \<Rightarrow>
          if \<not> truthy pusher \<or> \<not> truthy repository \<or> \<not> truthy commits
          then (Responded 400 (Json_error ''Malformed GitHub push event payload''), [])
          else (case bindE (commit_messages commits) (push_message v pusher repository) of
                  Inl err \<Rightarrow> (Unhandled err, [])
                | Inr message \<Rightarrow> send_telegram v e config message))"

text \<open>The handler of \<^verbatim>\<open>src/main.ts\<close> (lines 69-108).\<close>

definition webhook_main :: "env \<Rightarrow> request \<Rightarrow> outcome \<times> call list" where
  "webhook_main e req =
     (let config = lookup_config (projectConfigs e) (projectName req) in
      if \<not> config_truthy config
      then (Responded 404 (Json_error ''Project config not found''), [])
      else handle_push main_ts e config (body req))"

text \<open>
  Signature validation of \<^verbatim>\<open>src/unnamed/part_000\<close> (lines 99-115), for a truthy \<open>secret\<close>. The result
  \<open>None\<close> lets the request pass. \<^verbatim>\<open>createHmac\<close> throws a TypeError on a key that is not a
  string.
\<close>

definition verify_signature ::
    "jsval \<Rightarrow> string option \<Rightarrow> byte list option \<Rightarrow> outcome option \<times> call list" where
  "verify_signature secret signatureHeader raw =
     (case signatureHeader of
        None \<Rightarrow> (Some (Responded 401 (Json_error ''Missing or invalid signature'')), [])
      | Some h \<Rightarrow>
          if h = [] \<or> take 7 h \<noteq> ''sha256=''
          then (Some (Responded 401 (Json_error ''Missing or invalid signature'')), [])
          else (case raw of
             None \<Rightarrow>
               (Some (Responded 400 (Json_error ''Missing raw body for signature validation'')), [])
           | Some rb \<Rightarrow>
               (case secret of
                  JStr s \<Rightarrow>
                    (let digest = to_hex (hmac_sha256 (utf8 s) rb);
                         signature = drop 7 h;
                         sigBuf = from_hex signature;
                         digestBuf = from_hex digest
                     in if length sigBuf \<noteq> length digestBuf
                        then (Some (Responded 401 (Json_error ''Invalid signature'')), [])
                        else (case timingSafeEqual sigBuf digestBuf of
                                Inl err \<Rightarrow> (Some (Unhandled err), [TimingSafeEqual sigBuf digestBuf])
                              | Inr same \<Rightarrow>
                                  if \<not> same
                                  then (Some (Responded 401 (Json_error ''Invalid signature'')),
                                        [TimingSafeEqual sigBuf digestBuf])
                                  else (None, [TimingSafeEqual sigBuf digestBuf])))
                | _ \<Rightarrow> (Some (Unhandled TypeError), []))))"

text \<open>The handler of \<^verbatim>\<open>src/unnamed/part_000\<close> (lines 79-147).\<close>

definition webhook :: "env \<Rightarrow> request \<Rightarrow> outcome \<times> call list" where
  "webhook e req =
     (let config = lookup_config (projectConfigs e) (projectName req) in
      if \<not> config_truthy config
      then (Responded 404 (Json_error ''Project config not found''), [])
      else if x_github_event req = Some ''ping''
      then (Responded 200 (Send ''pong''), [])
      else (let secret = config_field config ''webhookSecret'' in
            if \<not> truthy secret
            then (Responded 500 (Json_error ''Webhook secret not configured for this project''), [])
            else (case verify_signature secret (x_hub_signature_256 req) (rawBody req) of
                    (Some out, calls) \<Rightarrow> (out, calls)
                  | (None, calls) \<Rightarrow>
                      (case handle_push part_000 e config (body req) of
                         (out, calls') \<Rightarrow> (out, calls @ calls')))))"

text \<open>The configuration a request selects, and the notifications among the calls made.\<close>

abbreviation config_of :: "env \<Rightarrow> request \<Rightarrow> config_ref" where
  "config_of e req \<equiv> lookup_config (projectConfigs e) (projectName req)"

fun post_of :: "call \<Rightarrow> telegram_request option" where
  "post_of (AxiosPost r) = Some r"
| "post_of (TimingSafeEqual a b) = None"

definition posts :: "call list \<Rightarrow> telegram_request list" where
  "posts calls = List.map_filter post_of calls"

definition posted_texts :: "call list \<Rightarrow> jsstring list" where
  "posted_texts calls = map message_text (posts calls)"

section \<open>The Commit of the data model, and example data\<close>

text \<open>
  Modelled from the spec: the interface \<^verbatim>\<open>GithubPushEvent\<close> is imported from
  \<^verbatim>\<open>./github-interfaces\<close>, which is not among the sources. A commit is
  \<^verbatim>\<open>{id, message, url, author: optional {name}, added/modified/removed: sequences of file
  paths}\<close>, each of the three lists possibly absent. \<open>commit_json\<close> is the value
  \<^verbatim>\<open>JSON.parse\<close> makes of such a commit, an absent field being left out, and
  \<open>commit_line\<close> is the line the specification asks for.
\<close>

record commit =
  c_id :: jsstring
  c_message :: jsstring
  c_url :: jsstring
  c_author :: "jsstring option"
  c_added :: "jsstring list option"
  c_modified :: "jsstring list option"
  c_removed :: "jsstring list option"

definition paths_json :: "string \<Rightarrow> jsstring list option \<Rightarrow> (jsstring \<times> jsval) list" where
  "paths_json k l = (case l of None \<Rightarrow> [] | Some fs \<Rightarrow> [(js k, JArr (map JStr fs))])"

definition commit_json :: "commit \<Rightarrow> jsval" where
  "commit_json c =
     JObj ([(js ''id'', JStr (c_id c)), (js ''message'', JStr (c_message c)),
            (js ''url'', JStr (c_url c))]
           @ (case c_author c of
                None \<Rightarrow> []
              | Some n \<Rightarrow> [(js ''author'', JObj [(js ''name'', JStr n)])])
           @ paths_json ''added'' (c_added c)
           @ paths_json ''modified'' (c_modified c)
           @ paths_json ''removed'' (c_removed c))"

definition count :: "jsstring list option \<Rightarrow> nat" where
  "count l = (case l of None \<Rightarrow> 0 | Some fs \<Rightarrow> length fs)"

definition commit_line :: "commit \<Rightarrow> jsstring" where
  "commit_line c =
     js ''- '' @ c_message c @ js '' (['' @ take 7 (c_id c) @ js ''](''  @ c_url c @
     js '')) by '' @ (case c_author c of None \<Rightarrow> js ''unknown'' | Some n \<Rightarrow> n) @
     js '' (added: '' @ js (digits (count (c_added c))) @
     js '', modified: '' @ js (digits (count (c_modified c))) @
     js '', removed: '' @ js (digits (count (c_removed c))) @ js '')''"

definition example_commit :: commit where
  "example_commit =
     \<lparr>c_id = js ''abcdef1234567'', c_message = js ''fix bug'',
      c_url = js ''https://x/commit/abcdef1234567'', c_author = Some (js ''alice''),
      c_added = Some [js ''a.txt''], c_modified = Some [], c_removed = Some []\<rparr>"

text \<open>
  A configuration with a project \<^verbatim>\<open>demo\<close> that has a secret and a project \<^verbatim>\<open>open\<close> that has
  none, and requests to them. \<open>signed s raw\<close> is the header GitHub computes for the body
  \<open>raw\<close> under the secret \<open>s\<close>.
\<close>

definition ascii :: "string \<Rightarrow> byte list" where
  "ascii s = map (\<lambda>c. of_char c) s"

definition signed :: "jsstring \<Rightarrow> byte list \<Rightarrow> string" where
  "signed s raw = ''sha256='' @ to_hex (hmac_sha256 (utf8 s) raw)"

definition example_configs :: "(jsstring \<times> jsval) list" where
  "example_configs =
     [(js ''demo'', JObj [(js ''botToken'', JStr (js ''123:abc'')), (js ''chatId'', JNum (- 1001)),
                         (js ''webhookSecret'', JStr (js ''s3cret''))]),
      (js ''open'', JObj [(js ''botToken'', JStr (js ''123:abc'')), (js ''chatId'', JNum (- 1001))])]"

definition example_env :: env where
  "example_env =
     \<lparr>projectConfigs = example_configs,
      TELEGRAM_API_DOMAIN = js ''https://api.telegram.org'',
      axios_post = (\<lambda>r. Resolved)\<rparr>"

definition empty_push :: jsval where
  "empty_push =
     JObj [(js ''pusher'', JObj [(js ''name'', JStr (js ''alice''))]),
           (js ''repository'', JObj [(js ''name'', JStr (js ''repo'')),
                                    (js ''html_url'', JStr (js ''https://x/repo''))]),
           (js ''commits'', JArr [])]"

definition empty_push_raw :: "byte list" where
  "empty_push_raw =
     ascii ''{\"pusher\":{\"name\":\"alice\"},\"repository\":{\"name\":\"repo\",\"html_url\":\"https://x/repo\"},\"commits\":[]}''"

definition request_to :: "string \<Rightarrow> string option \<Rightarrow> byte list option \<Rightarrow> jsval \<Rightarrow> request" where
  "request_to name sig raw b =
     \<lparr>projectName = js name, x_github_event = Some ''push'', x_hub_signature_256 = sig,
      rawBody = raw, body = b\<rparr>"

definition falsy_push :: jsval where
  "falsy_push =
     JObj [(js ''pusher'', JStr []),
           (js ''repository'', JObj [(js ''name'', JStr (js ''repo'')),
                                    (js ''html_url'', JStr (js ''https://x/repo''))]),
           (js ''commits'', JArr [])]"

definition falsy_push_raw :: "byte list" where
  "falsy_push_raw =
     ascii ''{\"pusher\":\"\",\"repository\":{\"name\":\"repo\",\"html_url\":\"https://x/repo\"},\"commits\":[]}''"

text \<open>The environment of a server started without \<^verbatim>\<open>config.json\<close>, whose posts fail.\<close>

definition no_config_env :: env where
  "no_config_env =
     \<lparr>projectConfigs = [],
      TELEGRAM_API_DOMAIN = js ''https://api.telegram.org'',
      axios_post = (\<lambda>r. Rejected ''Not Found'')\<rparr>"

text \<open>A second environment: another API domain, and posts that fail.\<close>

definition failing_env :: env where
  "failing_env =
     \<lparr>projectConfigs = example_configs,
      TELEGRAM_API_DOMAIN = js ''http://localhost:8081'',
      axios_post = (\<lambda>r. Rejected ''timeout'')\<rparr>"

text \<open>The header line of the message, up to its colon.\<close>

definition header_line :: "variant \<Rightarrow> jsstring \<Rightarrow> jsstring \<Rightarrow> jsstring \<Rightarrow> jsstring" where
  "header_line v pusher_name repo_name repo_url =
     emoji v @ js '' *'' @ pusher_name @ js ''* pushed to ['' @ repo_name @ js ''](''  @ repo_url @
     js ''):''"

section \<open>Facts about strings, hexadecimal and the digest\<close>

lemma of_char_word16: "unat (of_char c :: 16 word) = (of_char c :: nat)"
proof -
  have "(of_char c :: 16 word) = of_nat (of_char c)"
    by (simp add: of_nat_of_char)
  moreover have "(of_char c :: nat) < 2 ^ 16"
    by (rule less_trans [OF nat_of_char_less_256]) simp
  ultimately show ?thesis
    by (simp add: unat_of_nat)
qed

lemma inj_of_char_word16: "inj (of_char :: char \<Rightarrow> 16 word)"
proof (rule injI)
  fix a b :: char
  assume "(of_char a :: 16 word) = of_char b"
  then have "unat (of_char a :: 16 word) = unat (of_char b :: 16 word)" by simp
  then show "a = b" by (simp add: of_char_word16)
qed

lemma js_eq_iff [simp]: "js a = js b \<longleftrightarrow> a = b"
  unfolding js_def using inj_of_char_word16 by (rule inj_map_eq_map)

lemma js_Nil_iff [simp]: "js s = [] \<longleftrightarrow> s = []"
  by (simp add: js_def)

lemma js_append: "js (a @ b) = js a @ js b"
  by (simp add: js_def)

lemma length_state_bytes: "length (state_bytes s) = 32"
  by (cases s) (auto simp: bytes_be_def)

lemma length_sha256: "length (sha256 m) = 32"
  by (simp add: sha256_def length_state_bytes)

lemma length_hmac_sha256: "length (hmac_sha256 k m) = 32"
  by (simp add: hmac_sha256_def Let_def length_sha256)

lemma unhex_hex_digit_all: "\<forall>n<16. unhex (hex_digit n) = Some n"
  by code_simp

lemma unhex_hex_digit: "n < 16 \<Longrightarrow> unhex (hex_digit n) = Some n"
  using unhex_hex_digit_all by blast

lemma from_hex_to_hex_append: "from_hex (to_hex bs @ r) = bs @ from_hex r"
proof (induction bs)
  case Nil
  show ?case by (simp add: to_hex_def)
next
  case (Cons b bs)
  have hi: "unat b div 16 < 16"
    using unsigned_less [of b, where ?'a = nat] by (simp add: less_mult_imp_div_less)
  have "to_hex (b # bs) @ r = hex_digit (unat b div 16) # hex_digit (unat b mod 16) # (to_hex bs @ r)"
    by (simp add: to_hex_def)
  then show ?case
    using Cons.IH hi by (simp add: unhex_hex_digit)
qed

lemma from_hex_to_hex: "from_hex (to_hex bs) = bs"
  using from_hex_to_hex_append [of bs "[]"] by simp

text \<open>
  Two published test vectors, computed by rewriting: SHA-256 of \<^verbatim>\<open>abc\<close> (FIPS 180-4) and
  test case 2 of RFC 4231 for HMAC-SHA256.
\<close>

lemma sha256_abc:
  "to_hex (sha256 (ascii ''abc'')) =
     ''ba7816bf8f01cfea414140de5dae2223b00361a396177a9cb410ff61f20015ad''"
  by code_simp

lemma hmac_sha256_rfc4231_2:
  "to_hex (hmac_sha256 (ascii ''Jefe'') (ascii ''what do ya want for nothing?'')) =
     ''5bdcc146bf60754e6a042426089575c75a003f089d2739839dec58b964ec3843''"
  by code_simp

text \<open>The digest of the body \<^verbatim>\<open>{}\<close> under the secret \<^verbatim>\<open>s3cret\<close>.\<close>

lemma hmac_example:
  "hmac_sha256 (utf8 (js ''s3cret'')) [123, 125] =
     [173, 189, 225, 206, 64, 200, 156, 20, 33, 86, 135, 213, 215, 98, 164, 125,
      246, 223, 174, 252, 250, 214, 30, 46, 134, 113, 143, 252, 132, 152, 87, 27]"
  by code_simp


section \<open>Signature verification\<close>

lemma length_from_hex_digest [simp]: "length (from_hex (to_hex (hmac_sha256 k m))) = 32"
  by (simp add: from_hex_to_hex length_hmac_sha256)

lemma verify_signature_string:
  "verify_signature (JStr s) (Some h) (Some rb) =
     (if take 7 h \<noteq> ''sha256=''
      then (Some (Responded 401 (Json_error ''Missing or invalid signature'')), [])
      else if length (from_hex (drop 7 h)) \<noteq> 32
      then (Some (Responded 401 (Json_error ''Invalid signature'')), [])
      else if from_hex (drop 7 h) \<noteq> hmac_sha256 (utf8 s) rb
      then (Some (Responded 401 (Json_error ''Invalid signature'')),
            [TimingSafeEqual (from_hex (drop 7 h)) (hmac_sha256 (utf8 s) rb)])
      else (None, [TimingSafeEqual (hmac_sha256 (utf8 s) rb) (hmac_sha256 (utf8 s) rb)]))"
  by (auto simp: verify_signature_def Let_def timingSafeEqual_def from_hex_to_hex
        length_hmac_sha256)

lemma verify_signature_signed:
  "verify_signature (JStr s) (Some (signed s rb)) (Some rb) =
     (None, [TimingSafeEqual (hmac_sha256 (utf8 s) rb) (hmac_sha256 (utf8 s) rb)])"
  by (simp add: verify_signature_string signed_def from_hex_to_hex length_hmac_sha256)

text \<open>
  Claim C1, as the code has it. With a string secret, a signature header and a raw body,
  verification lets the request pass exactly when the header starts with \<^verbatim>\<open>sha256=\<close> and
  the rest of it, decoded by \<^verbatim>\<open>Buffer.from(..., 'hex')\<close>, is the 32 bytes of the HMAC-SHA256
  of the raw body under the secret. The comparison is between decoded buffers, not
  between the hexadecimal texts.
\<close>

theorem signature_accepted_iff:
  "fst (verify_signature (JStr s) (Some h) (Some rb)) = None \<longleftrightarrow>
     take 7 h = ''sha256='' \<and> from_hex (drop 7 h) = hmac_sha256 (utf8 s) rb"
  by (auto simp: verify_signature_string length_hmac_sha256)

text \<open>
  Claim C1 as stated fails: the digest of \<^verbatim>\<open>{}\<close> under \<^verbatim>\<open>s3cret\<close> written in upper
  case is not the hexadecimal digest that \<^verbatim>\<open>digest('hex')\<close> prints, and is accepted.
\<close>

theorem upper_case_signature_accepted:
  "fst (verify_signature (JStr (js ''s3cret''))
          (Some ''sha256=ADBDE1CE40C89C14215687D5D762A47DF6DFAEFCFAD61E2E86718FFC8498571B'')
          (Some (ascii ''{}''))) = None
   \<and> to_hex (hmac_sha256 (utf8 (js ''s3cret'')) (ascii ''{}''))
       = ''adbde1ce40c89c14215687d5d762a47df6dfaefcfad61e2e86718ffc8498571b''
   \<and> drop 7 ''sha256=ADBDE1CE40C89C14215687D5D762A47DF6DFAEFCFAD61E2E86718FFC8498571B''
       \<noteq> to_hex (hmac_sha256 (utf8 (js ''s3cret'')) (ascii ''{}''))"
proof -
  have raw: "ascii ''{}'' = [123, 125]"
    by (simp add: ascii_def)
  have dec: "from_hex ''ADBDE1CE40C89C14215687D5D762A47DF6DFAEFCFAD61E2E86718FFC8498571B'' =
     [173, 189, 225, 206, 64, 200, 156, 20, 33, 86, 135, 213, 215, 98, 164, 125,
      246, 223, 174, 252, 250, 214, 30, 46, 134, 113, 143, 252, 132, 152, 87, 27]"
    by code_simp
  have enc: "to_hex [173, 189, 225, 206, 64, 200, 156, 20, 33, 86, 135, 213, 215, 98, 164, 125,
      246, 223, 174, 252, 250, 214, 30, 46, 134, 113, 143, 252, 132, 152, 87, 27 :: byte]
     = ''adbde1ce40c89c14215687d5d762a47df6dfaefcfad61e2e86718ffc8498571b''"
    by code_simp
  show ?thesis
    by (simp add: verify_signature_string raw hmac_example dec enc del: from_hex.simps)
qed

section \<open>Routing: project lookup, ping and the secret\<close>

lemma bindE_simps [simp]: "bindE (Inr x) f = f x" "bindE (Inl err) f = Inl err"
  by (simp_all add: bindE_def)

lemma get_not_nullish: "\<not> nullish v \<Longrightarrow> get v k = Inr (read_prop v k)"
  by (simp add: get_def)

lemma falsy_values: "\<not> truthy v \<longleftrightarrow> v \<in> {JUndefined, JNull, JBool False, JNum 0, JStr []}"
  by (cases v) auto

lemma posted_texts_simps [simp]:
  "posted_texts [] = []"
  "posted_texts (AxiosPost r # cs) = message_text r # posted_texts cs"
  "posted_texts (TimingSafeEqual a b # cs) = posted_texts cs"
  by (simp_all add: posted_texts_def posts_def List.map_filter_simps)

lemma handle_push_malformed:
  assumes "\<not> nullish b"
    and "\<not> truthy (read_prop b ''pusher'') \<or> \<not> truthy (read_prop b ''repository'')
         \<or> \<not> truthy (read_prop b ''commits'')"
  shows "handle_push v e c b = (Responded 400 (Json_error ''Malformed GitHub push event payload''), [])"
  using assms by (auto simp: handle_push_def get_not_nullish)

lemma webhook_passed:
  assumes "config_truthy (config_of e req)" and "x_github_event req \<noteq> Some ''ping''"
    and "truthy (config_field (config_of e req) ''webhookSecret'')"
    and "verify_signature (config_field (config_of e req) ''webhookSecret'')
           (x_hub_signature_256 req) (rawBody req) = (None, calls)"
  shows "webhook e req =
     (fst (handle_push part_000 e (config_of e req) (body req)),
      calls @ snd (handle_push part_000 e (config_of e req) (body req)))"
  using assms by (simp add: webhook_def Let_def split: prod.splits)

lemma webhook_main_known:
  "config_truthy (config_of e req) \<Longrightarrow>
   webhook_main e req = handle_push main_ts e (config_of e req) (body req)"
  by (simp add: webhook_main_def Let_def)

lemma lookup_demo:
  "lookup_config example_configs (js ''demo'') =
     OwnConfig (JObj [(js ''botToken'', JStr (js ''123:abc'')), (js ''chatId'', JNum (- 1001)),
                      (js ''webhookSecret'', JStr (js ''s3cret''))])"
  by (simp add: lookup_config_def example_configs_def)

lemma lookup_open:
  "lookup_config example_configs (js ''open'') =
     OwnConfig (JObj [(js ''botToken'', JStr (js ''123:abc'')), (js ''chatId'', JNum (- 1001))])"
  by (simp add: lookup_config_def example_configs_def)

lemma lookup_nobody: "lookup_config example_configs (js ''nobody'') = NoConfig"
  by (simp add: lookup_config_def example_configs_def object_prototype_names_def)

lemma lookup_constructor: "lookup_config [] (js ''constructor'') = Inherited"
  by (simp add: lookup_config_def object_prototype_names_def)

lemma posts_simps [simp]:
  "posts [] = []"
  "posts (AxiosPost r # cs) = r # posts cs"
  "posts (TimingSafeEqual a b # cs) = posts cs"
  by (simp_all add: posts_def List.map_filter_simps)

lemma posts_append [simp]: "posts (xs @ ys) = posts xs @ posts ys"
proof (induction xs)
  case Nil
  show ?case by simp
next
  case (Cons c cs)
  then show ?case by (cases c) simp_all
qed

lemma handle_push_empty_push:
  "to_string (config_field c ''botToken'') = Inr tok \<Longrightarrow>
   handle_push v e c empty_push =
     (let r = \<lparr>url = TELEGRAM_API_DOMAIN e @ js ''/bot'' @ tok @ js ''/sendMessage'',
                chat_id = config_field c ''chatId'',
                message_thread_id = config_field c ''threadId'',
                message_text = emoji v @ js '' *alice* pushed to [repo](https://x/repo):'' @ separator v,
                parse_mode = mode v,
                disable_web_page_preview = True\<rparr>
      in case axios_post e r of
           Resolved \<Rightarrow> (Responded 200 (Send ''OK''), [AxiosPost r])
         | Rejected d \<Rightarrow>
             (Responded 500 (Json_error_details ''Failed to send Telegram message'' (PostFailed d)),
              [AxiosPost r]))"
  by (simp add: handle_push_def empty_push_def get_def commit_messages_def push_message_def
        send_telegram_def js_def)

text \<open>
  Claim C2, as the code has it. When the project name selects a configuration (the
  test \<^verbatim>\<open>!config\<close> fails) and the event header is \<^verbatim>\<open>ping\<close>, the handler of
  \<^verbatim>\<open>part_000\<close> answers 200 \<^verbatim>\<open>pong\<close> and makes no call: neither the secret, nor the
  signature, nor the body is looked at.
\<close>

theorem ping_pong:
  assumes "config_truthy (config_of e req)" and "x_github_event req = Some ''ping''"
  shows "webhook e req = (Responded 200 (Send ''pong''), [])"
  using assms by (simp add: webhook_def Let_def)

text \<open>
  A ping to the project \<^verbatim>\<open>open\<close>, which has no secret, without signature and without
  body.
\<close>

theorem ping_pong_witness:
  "config_truthy (config_of example_env
      \<lparr>projectName = js ''open'', x_github_event = Some ''ping'', x_hub_signature_256 = None,
       rawBody = None, body = JObj []\<rparr>)
   \<and> config_field (lookup_config example_configs (js ''open'')) ''webhookSecret'' = JUndefined
   \<and> webhook example_env
      \<lparr>projectName = js ''open'', x_github_event = Some ''ping'', x_hub_signature_256 = None,
       rawBody = None, body = JObj []\<rparr> = (Responded 200 (Send ''pong''), [])"
proof -
  let ?r = "\<lparr>projectName = js ''open'', x_github_event = Some ''ping'', x_hub_signature_256 = None,
       rawBody = None, body = JObj []\<rparr>"
  have k: "config_truthy (config_of example_env ?r)"
    by (simp add: example_env_def lookup_open)
  have p: "x_github_event ?r = Some ''ping''" by simp
  show ?thesis
    using ping_pong [OF k p] k by (simp add: lookup_open)
qed

text \<open>
  Claim C2 as stated fails: the project lookup comes before the ping test, and a ping
  to a project that is not configured is answered 404.
\<close>

theorem ping_unknown_project_404:
  "x_github_event \<lparr>projectName = js ''nobody'', x_github_event = Some ''ping'',
       x_hub_signature_256 = None, rawBody = None, body = JObj []\<rparr> = Some ''ping''
   \<and> webhook example_env
      \<lparr>projectName = js ''nobody'', x_github_event = Some ''ping'', x_hub_signature_256 = None,
       rawBody = None, body = JObj []\<rparr> = (Responded 404 (Json_error ''Project config not found''), [])"
  by (simp add: webhook_def example_env_def lookup_nobody)


text \<open>
  Claim C3, as the code has it. For a request that is not a ping, to a project whose
  configuration has no non-empty \<^verbatim>\<open>webhookSecret\<close>, the handler of \<^verbatim>\<open>part_000\<close> answers
  500 and makes no call; the handler of \<^verbatim>\<open>main.ts\<close>, which has no signature check at
  all, goes on to payload validation.
\<close>

theorem missing_secret_500:
  assumes "config_truthy (config_of e req)" and "x_github_event req \<noteq> Some ''ping''"
    and "\<not> truthy (config_field (config_of e req) ''webhookSecret'')"
  shows "webhook e req =
           (Responded 500 (Json_error ''Webhook secret not configured for this project''), [])
         \<and> webhook_main e req = handle_push main_ts e (config_of e req) (body req)"
  using assms by (simp add: webhook_def webhook_main_def Let_def)

text \<open>A valid push to the project \<^verbatim>\<open>open\<close>: 500 from \<^verbatim>\<open>part_000\<close>, delivered by \<^verbatim>\<open>main.ts\<close>.\<close>

theorem missing_secret_500_witness:
  "config_truthy (config_of example_env (request_to ''open'' None None empty_push))
   \<and> x_github_event (request_to ''open'' None None empty_push) \<noteq> Some ''ping''
   \<and> \<not> truthy (config_field (config_of example_env (request_to ''open'' None None empty_push))
                  ''webhookSecret'')
   \<and> webhook example_env (request_to ''open'' None None empty_push) =
         (Responded 500 (Json_error ''Webhook secret not configured for this project''), [])
   \<and> fst (webhook_main example_env (request_to ''open'' None None empty_push)) =
         Responded 200 (Send ''OK'')"
proof -
  let ?r = "request_to ''open'' None None empty_push"
  have c: "config_of example_env ?r =
      OwnConfig (JObj [(js ''botToken'', JStr (js ''123:abc'')), (js ''chatId'', JNum (- 1001))])"
    by (simp add: example_env_def request_to_def lookup_open)
  have k: "config_truthy (config_of example_env ?r)"
    by (simp add: c)
  have p: "x_github_event ?r \<noteq> Some ''ping''"
    by (simp add: request_to_def)
  have n: "\<not> truthy (config_field (config_of example_env ?r) ''webhookSecret'')"
    by (simp add: c)
  have b: "body ?r = empty_push"
    by (simp add: request_to_def)
  have h: "fst (handle_push main_ts example_env (config_of example_env ?r) empty_push) =
      Responded 200 (Send ''OK'')"
    unfolding c by (simp add: handle_push_empty_push Let_def example_env_def)
  show ?thesis
    using missing_secret_500 [OF k p n] k p n h by (simp add: b)
qed

text \<open>
  Claim C3 as stated fails: for the project \<^verbatim>\<open>open\<close> verification is not skipped. The
  handler answers 500, where payload validation and delivery of the same request would
  have answered 200.
\<close>

theorem missing_secret_not_skipped:
  "x_github_event (request_to ''open'' None None empty_push) \<noteq> Some ''ping''
   \<and> config_field (config_of example_env (request_to ''open'' None None empty_push))
        ''webhookSecret'' = JUndefined
   \<and> fst (webhook example_env (request_to ''open'' None None empty_push)) =
         Responded 500 (Json_error ''Webhook secret not configured for this project'')
   \<and> fst (handle_push part_000 example_env
              (config_of example_env (request_to ''open'' None None empty_push))
              (body (request_to ''open'' None None empty_push))) =
         Responded 200 (Send ''OK'')"
proof -
  let ?r = "request_to ''open'' None None empty_push"
  have c: "config_of example_env ?r =
      OwnConfig (JObj [(js ''botToken'', JStr (js ''123:abc'')), (js ''chatId'', JNum (- 1001))])"
    by (simp add: example_env_def request_to_def lookup_open)
  have b: "body ?r = empty_push"
    by (simp add: request_to_def)
  have h: "fst (handle_push part_000 example_env (config_of example_env ?r) empty_push) =
      Responded 200 (Send ''OK'')"
    unfolding c by (simp add: handle_push_empty_push Let_def example_env_def)
  have w: "fst (webhook example_env ?r) =
      Responded 500 (Json_error ''Webhook secret not configured for this project'')"
    unfolding webhook_def Let_def c by (simp add: request_to_def)
  show ?thesis
    using h w by (simp add: c b) (simp add: request_to_def)
qed

text \<open>
  Claim C6 fails on the code. \<^verbatim>\<open>constructor\<close> is not a key of the loaded configuration
  (here the empty one), yet \<^verbatim>\<open>projectConfigs['constructor']\<close> is the function
  \<^verbatim>\<open>Object\<close>, which is truthy: \<^verbatim>\<open>main.ts\<close> formats the push and posts it to the bot
  \<^verbatim>\<open>undefined\<close>, and \<^verbatim>\<open>part_000\<close> answers 500 instead of 404.
\<close>

theorem prototype_name_not_404:
  "map_of (projectConfigs no_config_env) (projectName (request_to ''constructor'' None None empty_push))
     = None
   \<and> webhook_main no_config_env (request_to ''constructor'' None None empty_push) =
       (Responded 500 (Json_error_details ''Failed to send Telegram message'' (PostFailed ''Not Found'')),
        [AxiosPost
          \<lparr>url = js ''https://api.telegram.org/botundefined/sendMessage'',
           chat_id = JUndefined, message_thread_id = JUndefined,
           message_text = [55357, 56960] @ js '' *alice* pushed to [repo](https://x/repo):'' @ [10],
           parse_mode = js ''Markdown'', disable_web_page_preview = True\<rparr>])
   \<and> webhook no_config_env (request_to ''constructor'' None None empty_push) =
       (Responded 500 (Json_error ''Webhook secret not configured for this project''), [])"
proof -
  let ?r = "request_to ''constructor'' None None empty_push"
  have c: "config_of no_config_env ?r = Inherited"
    by (simp add: no_config_env_def request_to_def lookup_constructor)
  have m: "webhook_main no_config_env ?r = handle_push main_ts no_config_env Inherited empty_push"
    by (simp add: webhook_main_def c Let_def) (simp add: request_to_def)
  have t: "to_string (config_field Inherited ''botToken'') = Inr (js ''undefined'')"
    by simp
  have w: "webhook no_config_env ?r =
       (Responded 500 (Json_error ''Webhook secret not configured for this project''), [])"
    unfolding webhook_def Let_def c by (simp add: request_to_def)
  show ?thesis
    unfolding m w handle_push_empty_push [OF t]
    by (simp add: no_config_env_def main_ts_def request_to_def js_append [symmetric])
qed

text \<open>For every other name that is not a key the handlers answer 404 and make no call.\<close>

lemma unknown_project_404:
  assumes "map_of (projectConfigs e) (projectName req) = None"
    and "projectName req \<notin> set (map js object_prototype_names)"
  shows "webhook e req = (Responded 404 (Json_error ''Project config not found''), [])"
    and "webhook_main e req = (Responded 404 (Json_error ''Project config not found''), [])"
  using assms by (simp_all add: webhook_def webhook_main_def lookup_config_def)

section \<open>Payload validation\<close>

lemma handle_push_object_400:
  assumes "\<not> truthy (read_prop (JObj ps) ''pusher'') \<or> \<not> truthy (read_prop (JObj ps) ''repository'')
         \<or> \<not> truthy (read_prop (JObj ps) ''commits'')"
  shows "handle_push v e c (JObj ps) =
     (Responded 400 (Json_error ''Malformed GitHub push event payload''), [])"
  using assms by (intro handle_push_malformed) simp_all

lemma webhook_passed_400:
  assumes "config_truthy (config_of e req)" and "x_github_event req \<noteq> Some ''ping''"
    and "truthy (config_field (config_of e req) ''webhookSecret'')"
    and "fst (verify_signature (config_field (config_of e req) ''webhookSecret'')
           (x_hub_signature_256 req) (rawBody req)) = None"
    and "handle_push part_000 e (config_of e req) (body req) = (Responded 400 b, [])"
  shows "fst (webhook e req) = Responded 400 b \<and> posts (snd (webhook e req)) = []"
proof -
  obtain calls where v: "verify_signature (config_field (config_of e req) ''webhookSecret'')
           (x_hub_signature_256 req) (rawBody req) = (None, calls)"
    using assms(4) by (cases "verify_signature (config_field (config_of e req) ''webhookSecret'')
           (x_hub_signature_256 req) (rawBody req)") simp
  have p: "posts calls = []"
    using v by (auto simp: verify_signature_def Let_def split: option.splits if_splits jsval.splits sum.splits)
  show ?thesis
    using webhook_passed [OF assms(1-3) v] assms(5) p by simp
qed






lemma demo_request:
  "config_of example_env (request_to ''demo'' sig raw b) =
     OwnConfig (JObj [(js ''botToken'', JStr (js ''123:abc'')), (js ''chatId'', JNum (- 1001)),
                      (js ''webhookSecret'', JStr (js ''s3cret''))])"
  "config_field (config_of example_env (request_to ''demo'' sig raw b)) ''webhookSecret'' =
     JStr (js ''s3cret'')"
  "config_truthy (config_of example_env (request_to ''demo'' sig raw b))"
  "x_github_event (request_to ''demo'' sig raw b) \<noteq> Some ''ping''"
  "x_hub_signature_256 (request_to ''demo'' sig raw b) = sig"
  "rawBody (request_to ''demo'' sig raw b) = raw"
  "body (request_to ''demo'' sig raw b) = b"
  by (simp_all add: example_env_def request_to_def lookup_demo)





text \<open>
  Claim C9, as the code has it. Payload validation tests truthiness: a payload in which
  \<^verbatim>\<open>pusher\<close>, \<^verbatim>\<open>repository\<close> or \<^verbatim>\<open>commits\<close> is present with the value \<^verbatim>\<open>""\<close>, \<^verbatim>\<open>0\<close>,
  \<^verbatim>\<open>false\<close> or \<^verbatim>\<open>null\<close> is answered 400 by the validation of both versions, hence by the
  handler of \<^verbatim>\<open>main.ts\<close> for every configured project and by the handler of \<^verbatim>\<open>part_000\<close>
  for every request that comes through the ping, secret and signature checks. No
  notification is sent.
\<close>

theorem falsy_field_400:
  assumes "config_truthy (config_of e req)" and "body req = JObj ps"
    and "k \<in> {''pusher'', ''repository'', ''commits''}"
    and "map_of ps (js k) = Some v"
    and "v \<in> {JStr [], JNum 0, JBool False, JNull}"
  shows "handle_push vr e' c (JObj ps) =
           (Responded 400 (Json_error ''Malformed GitHub push event payload''), [])
     \<and> webhook_main e req = (Responded 400 (Json_error ''Malformed GitHub push event payload''), [])
     \<and> (x_github_event req \<noteq> Some ''ping''
        \<and> truthy (config_field (config_of e req) ''webhookSecret'')
        \<and> fst (verify_signature (config_field (config_of e req) ''webhookSecret'')
                 (x_hub_signature_256 req) (rawBody req)) = None
        \<longrightarrow> fst (webhook e req) = Responded 400 (Json_error ''Malformed GitHub push event payload'')
            \<and> posts (snd (webhook e req)) = [])"
proof -
  have "\<not> truthy v"
    using assms(5) by auto
  then have f: "\<not> truthy (read_prop (JObj ps) ''pusher'') \<or> \<not> truthy (read_prop (JObj ps) ''repository'')
         \<or> \<not> truthy (read_prop (JObj ps) ''commits'')"
    using assms(3,4) by auto
  have h: "handle_push v' e'' c' (JObj ps) =
     (Responded 400 (Json_error ''Malformed GitHub push event payload''), [])" for v' e'' c'
    using f by (rule handle_push_object_400)
  show ?thesis
    using webhook_main_known [OF assms(1)] h
      webhook_passed_400 [OF assms(1) _ _ _ h [of part_000 e "config_of e req", folded assms(2)]]
    by (simp add: assms(2))
qed

text \<open>A push whose \<^verbatim>\<open>pusher\<close> is the empty string, signed with the secret of \<^verbatim>\<open>demo\<close>.\<close>

theorem falsy_field_400_witness:
  "map_of [(js ''pusher'', JStr []),
           (js ''repository'', JObj [(js ''name'', JStr (js ''repo'')),
                                    (js ''html_url'', JStr (js ''https://x/repo''))]),
           (js ''commits'', JArr [])] (js ''pusher'') = Some (JStr [])
   \<and> handle_push part_000 example_env NoConfig falsy_push =
       (Responded 400 (Json_error ''Malformed GitHub push event payload''), [])
   \<and> webhook_main example_env
        (request_to ''demo'' (Some (signed (js ''s3cret'') falsy_push_raw)) (Some falsy_push_raw)
           falsy_push) =
       (Responded 400 (Json_error ''Malformed GitHub push event payload''), [])
   \<and> fst (verify_signature (JStr (js ''s3cret''))
          (Some (signed (js ''s3cret'') falsy_push_raw)) (Some falsy_push_raw)) = None
   \<and> fst (webhook example_env
        (request_to ''demo'' (Some (signed (js ''s3cret'') falsy_push_raw)) (Some falsy_push_raw)
           falsy_push)) =
       Responded 400 (Json_error ''Malformed GitHub push event payload'')"
proof -
  let ?r = "request_to ''demo'' (Some (signed (js ''s3cret'') falsy_push_raw)) (Some falsy_push_raw)
           falsy_push"
  let ?ps = "[(js ''pusher'', JStr []),
           (js ''repository'', JObj [(js ''name'', JStr (js ''repo'')),
                                    (js ''html_url'', JStr (js ''https://x/repo''))]),
           (js ''commits'', JArr [])]"
  have b: "body ?r = JObj ?ps"
    by (simp add: demo_request falsy_push_def)
  have k: "''pusher'' \<in> {''pusher'', ''repository'', ''commits''}"
    by simp
  have m: "map_of ?ps (js ''pusher'') = Some (JStr [])"
    by simp
  have v: "JStr [] \<in> {JStr [], JNum 0, JBool False, JNull}"
    by simp
  show ?thesis
    using falsy_field_400 [OF demo_request(3) b k m v, of part_000 example_env NoConfig] m
    by (simp add: demo_request verify_signature_signed falsy_push_def)
qed

text \<open>
  Claim C9 as stated fails: the checks that come before validation answer first. The
  push whose \<^verbatim>\<open>pusher\<close> is the empty string gets 401 from \<^verbatim>\<open>part_000\<close> when its signature
  is not the digest and 500 when the project has no secret, and 404 from \<^verbatim>\<open>main.ts\<close>
  when the project is not configured.
\<close>

theorem falsy_field_not_always_400:
  "map_of [(js ''pusher'', JStr []),
           (js ''repository'', JObj [(js ''name'', JStr (js ''repo'')),
                                    (js ''html_url'', JStr (js ''https://x/repo''))]),
           (js ''commits'', JArr [])] (js ''pusher'') = Some (JStr [])
   \<and> body (request_to ''demo'' (Some ''sha256=abcd'') (Some falsy_push_raw) falsy_push) =
       JObj [(js ''pusher'', JStr []),
             (js ''repository'', JObj [(js ''name'', JStr (js ''repo'')),
                                      (js ''html_url'', JStr (js ''https://x/repo''))]),
             (js ''commits'', JArr [])]
   \<and> webhook example_env
        (request_to ''demo'' (Some ''sha256=abcd'') (Some falsy_push_raw) falsy_push) =
       (Responded 401 (Json_error ''Invalid signature''), [])
   \<and> webhook example_env (request_to ''open'' None None falsy_push) =
       (Responded 500 (Json_error ''Webhook secret not configured for this project''), [])
   \<and> webhook_main example_env (request_to ''nobody'' None None falsy_push) =
       (Responded 404 (Json_error ''Project config not found''), [])"
proof -
  have l: "length (from_hex (drop 7 ''sha256=abcd'')) \<noteq> 32"
    by (simp add: unhex_def)
  have v: "verify_signature (JStr (js ''s3cret'')) (Some ''sha256=abcd'') (Some falsy_push_raw) =
       (Some (Responded 401 (Json_error ''Invalid signature'')), [])"
    using l by (simp add: verify_signature_string del: from_hex.simps)
  have w: "webhook example_env
        (request_to ''demo'' (Some ''sha256=abcd'') (Some falsy_push_raw) falsy_push) =
       (Responded 401 (Json_error ''Invalid signature''), [])"
    unfolding webhook_def Let_def by (simp add: demo_request v del: from_hex.simps)
  have co: "config_of example_env (request_to ''open'' None None falsy_push) =
      OwnConfig (JObj [(js ''botToken'', JStr (js ''123:abc'')), (js ''chatId'', JNum (- 1001))])"
    by (simp add: example_env_def request_to_def lookup_open)
  have o: "webhook example_env (request_to ''open'' None None falsy_push) =
       (Responded 500 (Json_error ''Webhook secret not configured for this project''), [])"
    unfolding webhook_def Let_def co by (simp add: request_to_def)
  have n: "webhook_main example_env (request_to ''nobody'' None None falsy_push) =
       (Responded 404 (Json_error ''Project config not found''), [])"
    by (simp add: webhook_main_def example_env_def request_to_def lookup_nobody)
  show ?thesis
    using w o n by (simp add: demo_request falsy_push_def)
qed

section \<open>The length guard of the comparison\<close>

lemma verify_signature_calls:
  "TimingSafeEqual a b \<in> set (snd (verify_signature secret sig raw)) \<Longrightarrow>
   length a = 32 \<and> length b = 32"
  by (auto simp: verify_signature_def Let_def timingSafeEqual_def
      split: option.splits if_splits jsval.splits)

lemma verify_signature_no_RangeError:
  "fst (verify_signature secret sig raw) \<noteq> Some (Unhandled RangeError)"
  by (auto simp: verify_signature_def Let_def timingSafeEqual_def
      split: option.splits if_splits jsval.splits)

lemma verify_signature_wrong_length:
  assumes "length (from_hex (drop 7 h)) \<noteq> 32"
  shows "verify_signature (JStr s) (Some h) raw =
     (if take 7 h \<noteq> ''sha256=''
      then (Some (Responded 401 (Json_error ''Missing or invalid signature'')), [])
      else if raw = None
      then (Some (Responded 400 (Json_error ''Missing raw body for signature validation'')), [])
      else (Some (Responded 401 (Json_error ''Invalid signature'')), []))"
  using assms by (cases raw) (auto simp: verify_signature_def Let_def)

text \<open>
  Claim C5. When the signature header decodes to a number of bytes other than 32,
  verification answers 401 (or 400 when the raw body is missing) without having called
  \<^verbatim>\<open>timingSafeEqual\<close>, and the handler makes no call at all. Whatever the inputs, every
  comparison is between two buffers of 32 bytes, and the RangeError of
  \<^verbatim>\<open>timingSafeEqual\<close> is never thrown.
\<close>

theorem wrong_length_signature_rejected:
  assumes "length (from_hex (drop 7 h)) \<noteq> 32"
  shows "(\<exists>status msg. verify_signature (JStr s) (Some h) raw =
             (Some (Responded status (Json_error msg)), [])
           \<and> (status = 401 \<or> status = 400))
     \<and> (x_hub_signature_256 req = Some h \<longrightarrow>
          snd (webhook e req) = [] \<and> fst (webhook e req) \<noteq> Responded 200 (Send ''OK''))
     \<and> (TimingSafeEqual a b \<in> set (snd (verify_signature secret sig raw')) \<longrightarrow>
          length a = 32 \<and> length b = 32)
     \<and> fst (verify_signature secret sig raw') \<noteq> Some (Unhandled RangeError)"
proof -
  have 1: "\<exists>status msg. verify_signature (JStr s) (Some h) raw =
             (Some (Responded status (Json_error msg)), [])
           \<and> (status = 401 \<or> status = 400)"
    by (simp add: verify_signature_wrong_length [OF assms])
  have 2: "snd (webhook e req) = [] \<and> fst (webhook e req) \<noteq> Responded 200 (Send ''OK'')"
    if "x_hub_signature_256 req = Some h"
  proof (cases "config_field (config_of e req) ''webhookSecret''")
    case (JStr s')
    then show ?thesis
      using that by (simp add: webhook_def Let_def verify_signature_wrong_length [OF assms])
  qed (use that in \<open>auto simp: webhook_def Let_def verify_signature_def split: option.splits\<close>)
  show ?thesis
    using 1 2 verify_signature_calls [of a b secret sig raw']
      verify_signature_no_RangeError [of secret sig raw']
    by blast
qed

text \<open>
  A header of two bytes is rejected without comparison; the header GitHub computes is
  compared, 32 bytes against 32.
\<close>

theorem wrong_length_signature_rejected_witness:
  "length (from_hex (drop 7 ''sha256=abcd'')) \<noteq> 32
   \<and> verify_signature (JStr (js ''s3cret'')) (Some ''sha256=abcd'') (Some (ascii ''{}'')) =
       (Some (Responded 401 (Json_error ''Invalid signature'')), [])
   \<and> webhook example_env
        (request_to ''demo'' (Some ''sha256=abcd'') (Some (ascii ''{}'')) (JObj [])) =
       (Responded 401 (Json_error ''Invalid signature''), [])
   \<and> TimingSafeEqual (hmac_sha256 (utf8 (js ''s3cret'')) (ascii ''{}''))
        (hmac_sha256 (utf8 (js ''s3cret'')) (ascii ''{}''))
       \<in> set (snd (verify_signature (JStr (js ''s3cret''))
                  (Some (signed (js ''s3cret'') (ascii ''{}''))) (Some (ascii ''{}''))))
   \<and> length (hmac_sha256 (utf8 (js ''s3cret'')) (ascii ''{}'')) = 32"
proof -
  let ?r = "request_to ''demo'' (Some ''sha256=abcd'') (Some (ascii ''{}'')) (JObj [])"
  let ?d = "hmac_sha256 (utf8 (js ''s3cret'')) (ascii ''{}'')"
  have l: "length (from_hex (drop 7 ''sha256=abcd'')) \<noteq> 32"
    by (simp add: unhex_def)
  have v: "verify_signature (JStr (js ''s3cret'')) (Some ''sha256=abcd'') (Some (ascii ''{}'')) =
       (Some (Responded 401 (Json_error ''Invalid signature'')), [])"
    by (simp add: verify_signature_wrong_length [OF l])
  have w: "webhook example_env ?r = (Responded 401 (Json_error ''Invalid signature''), [])"
    unfolding webhook_def Let_def by (simp add: demo_request v del: from_hex.simps)
  have m: "TimingSafeEqual ?d ?d
       \<in> set (snd (verify_signature (JStr (js ''s3cret''))
                  (Some (signed (js ''s3cret'') (ascii ''{}''))) (Some (ascii ''{}''))))"
    by (simp add: verify_signature_signed)
  show ?thesis
    using wrong_length_signature_rejected [OF l, of "js ''s3cret''" "Some (ascii ''{}'')" ?r
        example_env ?d ?d "JStr (js ''s3cret'')" "Some (signed (js ''s3cret'') (ascii ''{}''))"
        "Some (ascii ''{}'')"] l v w m
    by simp
qed

section \<open>The formatter and the notification\<close>

lemma length_or_0_simps [simp]:
  "length_or_0 JUndefined = JNum 0"
  "length_or_0 (JArr xs) = JNum (int (length xs))"
  by (simp_all add: length_or_0_def opt_get_def)

lemma to_string_count [simp]:
  "to_string (JNum (int n)) = Inr (js (digits n))"
  "to_string (JNum 0) = Inr (js (digits 0))"
  by simp_all

lemma format_commit_commit_json: "format_commit (commit_json c) = Inr (commit_line c)"
  by (cases "c_author c"; cases "c_added c"; cases "c_modified c"; cases "c_removed c")
    (simp_all add: format_commit_def commit_json_def commit_line_def get_def opt_get_def
       paths_json_def count_def del: to_string.simps(4))

lemma mapE_format_commit:
  "mapE format_commit (map commit_json cs) = Inr (map commit_line cs)"
  by (induction cs) (simp_all add: format_commit_commit_json)

lemma digits_0_1: "digits 0 = ''0''" "digits (Suc 0) = ''1''"
  by code_simp+

lemma commit_line_example:
  "commit_line example_commit =
     js ''- fix bug ([abcdef1](https://x/commit/abcdef1234567)) by alice (added: 1, modified: 0, removed: 0)''"
  by (simp add: commit_line_def example_commit_def count_def digits_0_1 js_def)

text \<open>
  Claim C7. For every commit of the data model the callback of \<^verbatim>\<open>commits.map\<close> returns
  the line \<^verbatim>\<open>- <message> ([<first 7 of id>](<url>)) by <author or unknown> (added: n,
  modified: n, removed: n)\<close>, with count 0 for an absent list and \<^verbatim>\<open>unknown\<close> for an absent
  author; the commits of a push give one such line each, joined by line feeds; and the
  commit of the specification's example renders as the text given there.
\<close>

theorem format_commit_line:
  "format_commit (commit_json c) = Inr (commit_line c)
   \<and> commit_messages (JArr (map commit_json cs)) = Inr (join [10] (map commit_line cs))
   \<and> format_commit (commit_json example_commit) =
       Inr (js ''- fix bug ([abcdef1](https://x/commit/abcdef1234567)) by alice (added: 1, modified: 0, removed: 0)'')"
  by (simp add: format_commit_commit_json commit_messages_def mapE_format_commit
        commit_line_example)


lemma posted_texts_append [simp]:
  "posted_texts (xs @ ys) = posted_texts xs @ posted_texts ys"
  by (simp add: posted_texts_def)

lemma send_telegram_texts:
  "posted_texts (snd (send_telegram v e c m)) = [] \<or> posted_texts (snd (send_telegram v e c m)) = [m]"
  by (auto simp: send_telegram_def Let_def split: sum.splits post_result.splits)

lemma handle_push_texts:
  "\<exists>t. \<forall>e c. posted_texts (snd (handle_push v e c b)) = []
            \<or> posted_texts (snd (handle_push v e c b)) = [t]"
proof (cases "bindE (get b ''pusher'') (\<lambda>pusher.
           bindE (get b ''repository'') (\<lambda>repository.
           bindE (get b ''commits'') (\<lambda>commits. Inr (pusher, repository, commits))))")
  case (Inl err)
  then show ?thesis by (simp add: handle_push_def)
next
  case (Inr t)
  obtain pusher repository commits where t: "t = (pusher, repository, commits)"
    by (cases t) auto
  show ?thesis
  proof (cases "bindE (commit_messages commits) (push_message v pusher repository)")
    case (Inl err)
    then show ?thesis using Inr t by (simp add: handle_push_def)
  next
    case m: (Inr message)
    have "posted_texts (snd (handle_push v e c b)) = []
            \<or> posted_texts (snd (handle_push v e c b)) = [message]" for e c
      using Inr t m send_telegram_texts [of v e c message] by (simp add: handle_push_def)
    then show ?thesis by blast
  qed
qed

lemma verify_signature_texts [simp]:
  "posted_texts (snd (verify_signature secret sig raw)) = []"
  by (auto simp: verify_signature_def Let_def split: option.splits if_splits jsval.splits sum.splits)

lemma webhook_texts:
  "posted_texts (snd (webhook e q)) = []
   \<or> posted_texts (snd (webhook e q)) =
       posted_texts (snd (handle_push part_000 e (config_of e q) (body q)))"
proof (cases "verify_signature (config_field (config_of e q) ''webhookSecret'')
           (x_hub_signature_256 q) (rawBody q)")
  case (Pair out calls)
  have "posted_texts calls = []"
    using verify_signature_texts [of "config_field (config_of e q) ''webhookSecret''"
        "x_hub_signature_256 q" "rawBody q"] Pair by simp
  then show ?thesis
    using Pair by (cases out) (auto simp: webhook_def Let_def split: prod.splits)
qed

lemma webhook_main_texts:
  "posted_texts (snd (webhook_main e q)) = []
   \<or> posted_texts (snd (webhook_main e q)) =
       posted_texts (snd (handle_push main_ts e (config_of e q) (body q)))"
  by (simp add: webhook_main_def Let_def)

lemma send_telegram_posts:
  "to_string (config_field c ''botToken'') = Inr tok \<Longrightarrow>
   posted_texts (snd (send_telegram v e c m)) = [m]
   \<and> (fst (send_telegram v e c m) = Responded 200 (Send ''OK'')
      \<or> (\<exists>d. fst (send_telegram v e c m) =
             Responded 500 (Json_error_details ''Failed to send Telegram message'' (PostFailed d))))"
  by (auto simp: send_telegram_def Let_def split: post_result.splits)

lemma handle_push_empty_commits:
  assumes "map_of ps (js ''pusher'') = Some (JObj pp)" and "map_of pp (js ''name'') = Some (JStr pn)"
    and "map_of ps (js ''repository'') = Some (JObj rp)" and "map_of rp (js ''name'') = Some (JStr rn)"
    and "map_of rp (js ''html_url'') = Some (JStr ru)"
    and "map_of ps (js ''commits'') = Some (JArr [])"
  shows "handle_push v e c (JObj ps) = send_telegram v e c (header_line v pn rn ru @ separator v)"
  using assms
  by (simp add: handle_push_def get_def commit_messages_def push_message_def header_line_def)

lemma empty_push_fields:
  "empty_push = JObj [(js ''pusher'', JObj [(js ''name'', JStr (js ''alice''))]),
           (js ''repository'', JObj [(js ''name'', JStr (js ''repo'')),
                                    (js ''html_url'', JStr (js ''https://x/repo''))]),
           (js ''commits'', JArr [])]"
  by (simp add: empty_push_def)

lemma demo_request_failing:
  "config_of failing_env (request_to ''demo'' sig raw b) =
     OwnConfig (JObj [(js ''botToken'', JStr (js ''123:abc'')), (js ''chatId'', JNum (- 1001)),
                      (js ''webhookSecret'', JStr (js ''s3cret''))])"
  "config_field (config_of failing_env (request_to ''demo'' sig raw b)) ''webhookSecret'' =
     JStr (js ''s3cret'')"
  "config_truthy (config_of failing_env (request_to ''demo'' sig raw b))"
  by (simp_all add: failing_env_def request_to_def lookup_demo)

lemma handle_push_empty_push_texts:
  assumes "to_string (config_field c ''botToken'') = Inr tok"
  shows "posted_texts (snd (handle_push v e c empty_push)) =
     [header_line v (js ''alice'') (js ''repo'') (js ''https://x/repo'') @ separator v]"
  using send_telegram_posts [OF assms]
  by (simp add: empty_push_fields handle_push_empty_commits)

text \<open>
  Claim C8. The text sent to Telegram is a function of the parsed body alone: two
  requests with the same body that both lead to a notification, whatever the
  environment, the project, the headers and the outcome of the post, send the same text.
  This holds for each version of the handler.
\<close>

theorem message_depends_on_body_only:
  assumes "body q1 = body q2"
  shows "(posted_texts (snd (webhook e1 q1)) \<noteq> [] \<and> posted_texts (snd (webhook e2 q2)) \<noteq> []
          \<longrightarrow> posted_texts (snd (webhook e1 q1)) = posted_texts (snd (webhook e2 q2)))
     \<and> (posted_texts (snd (webhook_main e1 q1)) \<noteq> [] \<and> posted_texts (snd (webhook_main e2 q2)) \<noteq> []
          \<longrightarrow> posted_texts (snd (webhook_main e1 q1)) = posted_texts (snd (webhook_main e2 q2)))"
proof -
  obtain t where t: "\<And>e c. posted_texts (snd (handle_push part_000 e c (body q1))) = []
            \<or> posted_texts (snd (handle_push part_000 e c (body q1))) = [t]"
    using handle_push_texts [of part_000 "body q1"] by blast
  obtain u where u: "\<And>e c. posted_texts (snd (handle_push main_ts e c (body q1))) = []
            \<or> posted_texts (snd (handle_push main_ts e c (body q1))) = [u]"
    using handle_push_texts [of main_ts "body q1"] by blast
  have a: "posted_texts (snd (webhook e q)) = [] \<or> posted_texts (snd (webhook e q)) = [t]"
    if "body q = body q1" for e q
    using webhook_texts [of e q] t [of e "config_of e q"] that by auto
  have b: "posted_texts (snd (webhook_main e q)) = [] \<or> posted_texts (snd (webhook_main e q)) = [u]"
    if "body q = body q1" for e q
    using webhook_main_texts [of e q] u [of e "config_of e q"] that by auto
  show ?thesis
    using a [of q1 e1] a [of q2 e2] b [of q1 e1] b [of q2 e2] assms by auto
qed


text \<open>
  The same signed push handled in two environments, with different API domains and
  posts that succeed in one and fail in the other.
\<close>

theorem message_depends_on_body_only_witness:
  "posted_texts (snd (webhook example_env
        (request_to ''demo'' (Some (signed (js ''s3cret'') empty_push_raw)) (Some empty_push_raw)
           empty_push))) =
     [header_line part_000 (js ''alice'') (js ''repo'') (js ''https://x/repo'') @ [10, 10]]
   \<and> posted_texts (snd (webhook failing_env
        (request_to ''demo'' (Some (signed (js ''s3cret'') empty_push_raw)) (Some empty_push_raw)
           empty_push))) =
     [header_line part_000 (js ''alice'') (js ''repo'') (js ''https://x/repo'') @ [10, 10]]
   \<and> posted_texts (snd (webhook_main example_env
        (request_to ''demo'' (Some (signed (js ''s3cret'') empty_push_raw)) (Some empty_push_raw)
           empty_push))) =
     [header_line main_ts (js ''alice'') (js ''repo'') (js ''https://x/repo'') @ [10]]
   \<and> posted_texts (snd (webhook_main failing_env
        (request_to ''demo'' (Some (signed (js ''s3cret'') empty_push_raw)) (Some empty_push_raw)
           empty_push))) =
     [header_line main_ts (js ''alice'') (js ''repo'') (js ''https://x/repo'') @ [10]]"
proof -
  let ?q = "request_to ''demo'' (Some (signed (js ''s3cret'') empty_push_raw)) (Some empty_push_raw)
           empty_push"
  let ?t = "header_line part_000 (js ''alice'') (js ''repo'') (js ''https://x/repo'') @ [10, 10]"
  let ?u = "header_line main_ts (js ''alice'') (js ''repo'') (js ''https://x/repo'') @ [10]"
  let ?d = "hmac_sha256 (utf8 (js ''s3cret'')) empty_push_raw"
  have v: "verify_signature (config_field (config_of example_env ?q) ''webhookSecret'')
      (x_hub_signature_256 ?q) (rawBody ?q) = (None, [TimingSafeEqual ?d ?d])"
    by (simp add: demo_request verify_signature_signed)
  have ts: "truthy (config_field (config_of example_env ?q) ''webhookSecret'')"
    by (simp add: demo_request)
  have tk: "to_string (config_field (config_of example_env ?q) ''botToken'') = Inr (js ''123:abc'')"
    by (simp add: demo_request)
  have w1: "posted_texts (snd (webhook example_env ?q)) = [?t]"
    using handle_push_empty_push_texts [OF tk, of part_000 example_env]
    by (simp add: webhook_passed [OF demo_request(3) demo_request(4) ts v] demo_request(7)
          part_000_def)
  have w2: "posted_texts (snd (webhook_main example_env ?q)) = [?u]"
    using handle_push_empty_push_texts [OF tk, of main_ts example_env]
    by (simp add: webhook_main_known [OF demo_request(3)] demo_request(7) main_ts_def)
  have b: "body ?q = body ?q" ..
  have tk': "to_string (config_field (config_of failing_env ?q) ''botToken'') = Inr (js ''123:abc'')"
    by (simp add: demo_request_failing)
  have n2: "posted_texts (snd (webhook_main failing_env ?q)) \<noteq> []"
    using handle_push_empty_push_texts [OF tk', of main_ts failing_env]
    by (simp add: webhook_main_known [OF demo_request_failing(3)] demo_request(7))
  have v': "verify_signature (config_field (config_of failing_env ?q) ''webhookSecret'')
      (x_hub_signature_256 ?q) (rawBody ?q) = (None, [TimingSafeEqual ?d ?d])"
    by (simp add: demo_request demo_request_failing verify_signature_signed)
  have ts': "truthy (config_field (config_of failing_env ?q) ''webhookSecret'')"
    by (simp add: demo_request_failing)
  have n1: "posted_texts (snd (webhook failing_env ?q)) \<noteq> []"
    using handle_push_empty_push_texts [OF tk', of part_000 failing_env]
    by (simp add: webhook_passed [OF demo_request_failing(3) demo_request(4) ts' v'] demo_request(7))
  show ?thesis
    using message_depends_on_body_only [OF b, of example_env failing_env] w1 w2 n1 n2
    by simp
qed


text \<open>
  Claim C10. A request that is valid but for an empty \<^verbatim>\<open>commits\<close> array passes
  validation, and exactly one notification is sent. Its text is the header line naming
  the pusher and linking the repository, followed by the line break that separates the
  header from the commit lines (one line feed in \<^verbatim>\<open>main.ts\<close>, two in \<^verbatim>\<open>part_000\<close>) and by
  no commit line.
\<close>

theorem empty_commits_header_only:
  assumes "config_truthy (config_of e req)"
    and "to_string (config_field (config_of e req) ''botToken'') = Inr tok"
    and "body req = JObj ps"
    and "map_of ps (js ''pusher'') = Some (JObj pp)" and "map_of pp (js ''name'') = Some (JStr pn)"
    and "map_of ps (js ''repository'') = Some (JObj rp)" and "map_of rp (js ''name'') = Some (JStr rn)"
    and "map_of rp (js ''html_url'') = Some (JStr ru)"
    and "map_of ps (js ''commits'') = Some (JArr [])"
  shows "posted_texts (snd (webhook_main e req)) = [header_line main_ts pn rn ru @ [10]]
     \<and> length (posts (snd (webhook_main e req))) = 1
     \<and> (x_github_event req \<noteq> Some ''ping''
        \<and> truthy (config_field (config_of e req) ''webhookSecret'')
        \<and> fst (verify_signature (config_field (config_of e req) ''webhookSecret'')
                 (x_hub_signature_256 req) (rawBody req)) = None
        \<longrightarrow> posted_texts (snd (webhook e req)) = [header_line part_000 pn rn ru @ [10, 10]]
            \<and> length (posts (snd (webhook e req))) = 1)"
proof -
  have h: "handle_push v e (config_of e req) (body req) =
      send_telegram v e (config_of e req) (header_line v pn rn ru @ separator v)" for v
    unfolding assms(3) using assms(4-9) by (rule handle_push_empty_commits)
  have t: "posted_texts (snd (handle_push v e (config_of e req) (body req))) =
      [header_line v pn rn ru @ separator v]" for v
    using send_telegram_posts [OF assms(2)] by (simp add: h)
  have m: "posted_texts (snd (webhook_main e req)) = [header_line main_ts pn rn ru @ [10]]"
    using t [of main_ts] by (simp add: webhook_main_known [OF assms(1)] main_ts_def)
  have w: "posted_texts (snd (webhook e req)) = [header_line part_000 pn rn ru @ [10, 10]]"
    if np: "x_github_event req \<noteq> Some ''ping''"
      and ts: "truthy (config_field (config_of e req) ''webhookSecret'')"
      and ok: "fst (verify_signature (config_field (config_of e req) ''webhookSecret'')
                 (x_hub_signature_256 req) (rawBody req)) = None"
  proof -
    obtain calls where v: "verify_signature (config_field (config_of e req) ''webhookSecret'')
           (x_hub_signature_256 req) (rawBody req) = (None, calls)"
      using ok by (cases "verify_signature (config_field (config_of e req) ''webhookSecret'')
           (x_hub_signature_256 req) (rawBody req)") simp
    have "posted_texts calls = []"
      using verify_signature_texts [of "config_field (config_of e req) ''webhookSecret''"
          "x_hub_signature_256 req" "rawBody req"] v by simp
    then show ?thesis
      using webhook_passed [OF assms(1) np ts v] t [of part_000] by (simp add: part_000_def)
  qed
  have l: "length (posts cs) = 1" if "posted_texts cs = [x]" for cs x
  proof -
    have "length (posted_texts cs) = 1" using that by simp
    then show ?thesis by (simp add: posted_texts_def)
  qed
  show ?thesis
    using m w l by blast
qed

text \<open>The push of \<^verbatim>\<open>alice\<close> to \<^verbatim>\<open>repo\<close> without commits, unsigned to \<^verbatim>\<open>main.ts\<close> and signed to \<^verbatim>\<open>part_000\<close>.\<close>

theorem empty_commits_header_only_witness:
  "posted_texts (snd (webhook_main example_env (request_to ''open'' None None empty_push))) =
     [header_line main_ts (js ''alice'') (js ''repo'') (js ''https://x/repo'') @ [10]]
   \<and> header_line main_ts (js ''alice'') (js ''repo'') (js ''https://x/repo'') =
       [55357, 56960] @ js '' *alice* pushed to [repo](https://x/repo):''
   \<and> fst (verify_signature (JStr (js ''s3cret''))
          (Some (signed (js ''s3cret'') empty_push_raw)) (Some empty_push_raw)) = None
   \<and> posted_texts (snd (webhook example_env
        (request_to ''demo'' (Some (signed (js ''s3cret'') empty_push_raw)) (Some empty_push_raw)
           empty_push))) =
     [header_line part_000 (js ''alice'') (js ''repo'') (js ''https://x/repo'') @ [10, 10]]
   \<and> length (posts (snd (webhook example_env
        (request_to ''demo'' (Some (signed (js ''s3cret'') empty_push_raw)) (Some empty_push_raw)
           empty_push)))) = 1"
proof -
  let ?q = "request_to ''demo'' (Some (signed (js ''s3cret'') empty_push_raw)) (Some empty_push_raw)
           empty_push"
  let ?o = "request_to ''open'' None None empty_push"
  have co: "config_of example_env ?o =
      OwnConfig (JObj [(js ''botToken'', JStr (js ''123:abc'')), (js ''chatId'', JNum (- 1001))])"
    by (simp add: example_env_def request_to_def lookup_open)
  have ko: "config_truthy (config_of example_env ?o)"
    by (simp add: co)
  have tko: "to_string (config_field (config_of example_env ?o) ''botToken'') = Inr (js ''123:abc'')"
    by (simp add: co)
  have bo: "body ?o = JObj [(js ''pusher'', JObj [(js ''name'', JStr (js ''alice''))]),
           (js ''repository'', JObj [(js ''name'', JStr (js ''repo'')),
                                    (js ''html_url'', JStr (js ''https://x/repo''))]),
           (js ''commits'', JArr [])]"
    by (simp add: request_to_def empty_push_def)
  have tk: "to_string (config_field (config_of example_env ?q) ''botToken'') = Inr (js ''123:abc'')"
    by (simp add: demo_request)
  have b: "body ?q = JObj [(js ''pusher'', JObj [(js ''name'', JStr (js ''alice''))]),
           (js ''repository'', JObj [(js ''name'', JStr (js ''repo'')),
                                    (js ''html_url'', JStr (js ''https://x/repo''))]),
           (js ''commits'', JArr [])]"
    by (simp add: demo_request empty_push_def)
  have hd: "header_line main_ts (js ''alice'') (js ''repo'') (js ''https://x/repo'') =
       [55357, 56960] @ js '' *alice* pushed to [repo](https://x/repo):''"
    by (simp add: header_line_def main_ts_def js_def)
  have 1: "posted_texts (snd (webhook_main example_env ?o)) =
     [header_line main_ts (js ''alice'') (js ''repo'') (js ''https://x/repo'') @ [10]]"
    using empty_commits_header_only [OF ko tko bo, of "[(js ''name'', JStr (js ''alice''))]"
        "js ''alice''" "[(js ''name'', JStr (js ''repo'')), (js ''html_url'', JStr (js ''https://x/repo''))]"
        "js ''repo''" "js ''https://x/repo''"]
    by simp
  have 2: "posted_texts (snd (webhook example_env ?q)) =
     [header_line part_000 (js ''alice'') (js ''repo'') (js ''https://x/repo'') @ [10, 10]]
     \<and> length (posts (snd (webhook example_env ?q))) = 1"
    using empty_commits_header_only [OF demo_request(3) tk b, of "[(js ''name'', JStr (js ''alice''))]"
        "js ''alice''" "[(js ''name'', JStr (js ''repo'')), (js ''html_url'', JStr (js ''https://x/repo''))]"
        "js ''repo''" "js ''https://x/repo''"]
    by (simp add: demo_request verify_signature_signed)
  show ?thesis
    using 1 2 hd by (simp add: verify_signature_signed)
qed


end
